theory Spec2Isabelle
  imports Main "HOL-Library.Word"
begin

section \<open>Machine types\<close>

text \<open>
  The header uses \<^verbatim>\<open>int\<close> and \<^verbatim>\<open>unsigned\<close>, both 32 bits wide.  A value of
  either type is a 32-bit word: an \<^verbatim>\<open>unsigned\<close> is read with \<open>unat\<close>, an
  \<^verbatim>\<open>int\<close> with \<open>sint\<close> (two's complement).  The implicit conversions between the
  two keep the bit pattern, so they are the identity on words.  A \<^verbatim>\<open>float\<close> is
  never computed with in the header, only passed on; it is the type variable \<open>'f\<close>.
\<close>

type_synonym cunsigned = "32 word"
type_synonym cint = "32 word"

section \<open>Base classes\<close>

text \<open>
  \<^verbatim>\<open>class AtomIndexTyper\<close>: the virtual interface of an index typer, as the table
  of its three member functions.  \<open>'a\<close> is the atom (\<^verbatim>\<open>OpenBabel::OBAtom\<close>), \<open>'e\<close>
  whatever an implementation may throw: a call either throws (\<open>Inl\<close>) or returns
  (\<open>Inr\<close>).
\<close>

record ('a, 'f, 'e) AtomIndexTyper =
  num_types :: cunsigned
  get_type :: "'a \<Rightarrow> 'e + cint \<times> 'f"
  get_type_names :: "string list"

text \<open>
  \<^verbatim>\<open>class AtomIndexTypeMapper\<close>: the virtual interface of a mapper between type
  indices.
\<close>

record 'e AtomIndexTypeMapper =
  mapper_num_types :: cunsigned
  mapper_get_type :: "cunsigned \<Rightarrow> 'e + cint"
  mapper_get_type_names :: "string list"

text \<open>
  The two member functions the base class defines itself:
  \<^verbatim>\<open>virtual unsigned num_types() const { return 0; }\<close> and
  \<^verbatim>\<open>virtual int get_type(unsigned origt) const { return origt; }\<close>.
  The result of the second is \<open>origt\<close> converted to \<^verbatim>\<open>int\<close>.
\<close>

definition AtomIndexTypeMapper_num_types :: cunsigned where
  "AtomIndexTypeMapper_num_types = 0"

definition AtomIndexTypeMapper_get_type :: "cunsigned \<Rightarrow> cint" where
  "AtomIndexTypeMapper_get_type origt = origt"

text \<open>
  \<^verbatim>\<open>get_type_names\<close> is pure virtual in the base class.  A derived class that
  overrides nothing else inherits the two functions above.
\<close>

definition inherited_mapper :: "string list \<Rightarrow> 'e AtomIndexTypeMapper" where
  "inherited_mapper names =
     \<lparr> mapper_num_types = AtomIndexTypeMapper_num_types,
       mapper_get_type = (\<lambda>origt. Inr (AtomIndexTypeMapper_get_type origt)),
       mapper_get_type_names = names \<rparr>"

section \<open>Wrapping an atom typer with a mapper\<close>

text \<open>
  \<^verbatim>\<open>template<class Mapper, class Typer> class MappedAtomIndexTyper\<close>.  The
  constructor copies the mapper and the typer; the three member functions are
  \<^verbatim>\<open>
    virtual unsigned num_types() const { return mapper.num_types(); }
    virtual std::pair<int,float> get_type(OpenBabel::OBAtom& a) const {
      auto res_rad = typer.get_type(a);
      int ret = mapper.get_type(res_rad.first);
      return make_pair(ret, res_rad.second);
    }
    virtual std::vector<std::string> get_type_names() const {
      return mapper.get_type_names();
    }
  \<close>
  \<open>res_rad.first\<close> is an \<^verbatim>\<open>int\<close> and is converted to the \<^verbatim>\<open>unsigned\<close> parameter
  of the mapper.  An exception of the typer or of the mapper leaves \<open>get_type\<close>.
\<close>

definition MappedAtomIndexTyper_num_types :: "'e AtomIndexTypeMapper \<Rightarrow> cunsigned" where
  "MappedAtomIndexTyper_num_types mapper = mapper_num_types mapper"

definition MappedAtomIndexTyper_get_type ::
  "'e AtomIndexTypeMapper \<Rightarrow> ('a, 'f, 'e) AtomIndexTyper \<Rightarrow> 'a \<Rightarrow> 'e + cint \<times> 'f" where
  "MappedAtomIndexTyper_get_type mapper typer a =
     (case get_type typer a of
        Inl e \<Rightarrow> Inl e
      | Inr res_rad \<Rightarrow>
          (case mapper_get_type mapper (fst res_rad) of
             Inl e \<Rightarrow> Inl e
           | Inr ret \<Rightarrow> Inr (ret, snd res_rad)))"

definition MappedAtomIndexTyper_get_type_names :: "'e AtomIndexTypeMapper \<Rightarrow> string list" where
  "MappedAtomIndexTyper_get_type_names mapper = mapper_get_type_names mapper"

definition MappedAtomIndexTyper ::
  "'e AtomIndexTypeMapper \<Rightarrow> ('a, 'f, 'e) AtomIndexTyper \<Rightarrow> ('a, 'f, 'e) AtomIndexTyper" where
  "MappedAtomIndexTyper mapr typr =
     \<lparr> num_types = MappedAtomIndexTyper_num_types mapr,
       get_type = MappedAtomIndexTyper_get_type mapr typr,
       get_type_names = MappedAtomIndexTyper_get_type_names mapr \<rparr>"

section \<open>The gnina index typer\<close>

text \<open>
  \<^verbatim>\<open>enum GninaIndexTyper::type\<close>, with its enumerators in the order of the header.
  The last one, \<^verbatim>\<open>NumTypes\<close>, follows \<^verbatim>\<open>Boron\<close> and names the number of types.
\<close>

datatype gnina_type =
    Hydrogen
  | PolarHydrogen
  | AliphaticCarbonXSHydrophobe
  | AliphaticCarbonXSNonHydrophobe
  | AromaticCarbonXSHydrophobe
  | AromaticCarbonXSNonHydrophobe
  | Nitrogen
  | NitrogenXSDonor
  | NitrogenXSDonorAcceptor
  | NitrogenXSAcceptor
  | Oxygen
  | OxygenXSDonor
  | OxygenXSDonorAcceptor
  | OxygenXSAcceptor
  | Sulfur
  | SulfurAcceptor
  | Phosphorus
  | Fluorine
  | Chlorine
  | Bromine
  | Iodine
  | Magnesium
  | Manganese
  | Zinc
  | Calcium
  | Iron
  | GenericMetal
  | Boron
  | NumTypes

text \<open>
  The value of an enumerator: the first is 0 and each next one is one more, as no
  enumerator of the header has an initialiser.
\<close>

fun enum_value :: "gnina_type \<Rightarrow> nat" where
  "enum_value Hydrogen = 0"
| "enum_value PolarHydrogen = 1"
| "enum_value AliphaticCarbonXSHydrophobe = 2"
| "enum_value AliphaticCarbonXSNonHydrophobe = 3"
| "enum_value AromaticCarbonXSHydrophobe = 4"
| "enum_value AromaticCarbonXSNonHydrophobe = 5"
| "enum_value Nitrogen = 6"
| "enum_value NitrogenXSDonor = 7"
| "enum_value NitrogenXSDonorAcceptor = 8"
| "enum_value NitrogenXSAcceptor = 9"
| "enum_value Oxygen = 10"
| "enum_value OxygenXSDonor = 11"
| "enum_value OxygenXSDonorAcceptor = 12"
| "enum_value OxygenXSAcceptor = 13"
| "enum_value Sulfur = 14"
| "enum_value SulfurAcceptor = 15"
| "enum_value Phosphorus = 16"
| "enum_value Fluorine = 17"
| "enum_value Chlorine = 18"
| "enum_value Bromine = 19"
| "enum_value Iodine = 20"
| "enum_value Magnesium = 21"
| "enum_value Manganese = 22"
| "enum_value Zinc = 23"
| "enum_value Calcium = 24"
| "enum_value Iron = 25"
| "enum_value GenericMetal = 26"
| "enum_value Boron = 27"
| "enum_value NumTypes = 28"

text \<open>The enumerators that stand for a type of atom: all but the closing \<^verbatim>\<open>NumTypes\<close>.\<close>

definition atom_types :: "gnina_type list" where
  "atom_types =
     [Hydrogen, PolarHydrogen, AliphaticCarbonXSHydrophobe, AliphaticCarbonXSNonHydrophobe,
      AromaticCarbonXSHydrophobe, AromaticCarbonXSNonHydrophobe, Nitrogen, NitrogenXSDonor,
      NitrogenXSDonorAcceptor, NitrogenXSAcceptor, Oxygen, OxygenXSDonor,
      OxygenXSDonorAcceptor, OxygenXSAcceptor, Sulfur, SulfurAcceptor, Phosphorus, Fluorine,
      Chlorine, Bromine, Iodine, Magnesium, Manganese, Zinc, Calcium, Iron, GenericMetal,
      Boron]"

text \<open>\<^verbatim>\<open>struct GninaIndexTyper::info\<close>, the entry of the table for one atom type.\<close>

record 'f info =
  sm :: gnina_type
  smina_name :: string
  adname :: string
  anum :: cunsigned
  ad_radius :: 'f
  ad_depth :: 'f
  ad_solvation :: 'f
  ad_volume :: 'f
  covalent_radius :: 'f
  xs_radius :: 'f
  xs_hydrophobe :: bool
  xs_donor :: bool
  xs_acceptor :: bool
  ad_heteroatom :: bool

text \<open>
  The private members \<^verbatim>\<open>bool use_covalent\<close> and \<^verbatim>\<open>const info *data\<close>.  \<open>data\<close>
  points to the first entry of an array; the model holds the array.  The default
  argument of the constructor is \<^verbatim>\<open>default_data\<close>, declared as
  \<^verbatim>\<open>static const info default_data[NumTypes]\<close>; its entries are not in the
  header, so the table is an argument here.
\<close>

record 'f GninaIndexTyper =
  use_covalent :: bool
  data :: "'f info list"

definition GninaIndexTyper_ctor :: "bool \<Rightarrow> 'f info list \<Rightarrow> 'f GninaIndexTyper" where
  "GninaIndexTyper_ctor usec d = \<lparr> use_covalent = usec, data = d \<rparr>"

text \<open>
  The outcome of the C++ expression \<open>p[t]\<close> on an array: the entry, or a read outside
  the array, which C++ leaves undefined.
\<close>

datatype 'x array_read = Entry 'x | OutOfBoundsRead

text \<open>\<^verbatim>\<open>const info& get_info(int t) const { return data[t]; }\<close>\<close>

definition GninaIndexTyper_get_info :: "'f GninaIndexTyper \<Rightarrow> cint \<Rightarrow> 'f info array_read" where
  "GninaIndexTyper_get_info typer t =
     (if 0 \<le> sint t \<and> nat (sint t) < length (data typer)
      then Entry (data typer ! nat (sint t))
      else OutOfBoundsRead)"

section \<open>The gnina vector typer\<close>

text \<open>
  \<^verbatim>\<open>enum GninaVectorTyper::vtype\<close>, the positions of the type vector, in the order of
  the header.  Its enumerators share names with those of \<^verbatim>\<open>GninaIndexTyper::type\<close>
  (the two enumerations live in different classes); here each carries the prefix \<open>V_\<close>.
\<close>

datatype vtype =
    V_Hydrogen
  | V_Carbon
  | V_Nitrogen
  | V_Oxygen
  | V_Sulfur
  | V_Phosphorus
  | V_Fluorine
  | V_Chlorine
  | V_Bromine
  | V_Iodine
  | V_Magnesium
  | V_Manganese
  | V_Zinc
  | V_Calcium
  | V_Iron
  | V_Boron
  | V_GenericAtom
  | V_AD_depth
  | V_AD_solvation
  | V_AD_volume
  | V_XS_hydrophobe
  | V_XS_donor
  | V_XS_acceptor
  | V_AD_heteroatom
  | V_OB_partialcharge
  | V_NumTypes

text \<open>The value of an enumerator of \<^verbatim>\<open>vtype\<close>; none has an initialiser.\<close>

fun vtype_value :: "vtype \<Rightarrow> nat" where
  "vtype_value V_Hydrogen = 0"
| "vtype_value V_Carbon = 1"
| "vtype_value V_Nitrogen = 2"
| "vtype_value V_Oxygen = 3"
| "vtype_value V_Sulfur = 4"
| "vtype_value V_Phosphorus = 5"
| "vtype_value V_Fluorine = 6"
| "vtype_value V_Chlorine = 7"
| "vtype_value V_Bromine = 8"
| "vtype_value V_Iodine = 9"
| "vtype_value V_Magnesium = 10"
| "vtype_value V_Manganese = 11"
| "vtype_value V_Zinc = 12"
| "vtype_value V_Calcium = 13"
| "vtype_value V_Iron = 14"
| "vtype_value V_Boron = 15"
| "vtype_value V_GenericAtom = 16"
| "vtype_value V_AD_depth = 17"
| "vtype_value V_AD_solvation = 18"
| "vtype_value V_AD_volume = 19"
| "vtype_value V_XS_hydrophobe = 20"
| "vtype_value V_XS_donor = 21"
| "vtype_value V_XS_acceptor = 22"
| "vtype_value V_AD_heteroatom = 23"
| "vtype_value V_OB_partialcharge = 24"
| "vtype_value V_NumTypes = 25"

text \<open>The positions of the vector: all enumerators but the closing \<^verbatim>\<open>NumTypes\<close>.\<close>

definition vtype_positions :: "vtype list" where
  "vtype_positions =
     [V_Hydrogen, V_Carbon, V_Nitrogen, V_Oxygen,
      V_Sulfur, V_Phosphorus, V_Fluorine, V_Chlorine,
      V_Bromine, V_Iodine, V_Magnesium, V_Manganese,
      V_Zinc, V_Calcium, V_Iron, V_Boron,
      V_GenericAtom, V_AD_depth, V_AD_solvation, V_AD_volume,
      V_XS_hydrophobe, V_XS_donor, V_XS_acceptor, V_AD_heteroatom,
      V_OB_partialcharge]"

section \<open>The element index typer\<close>

text \<open>
  What the typers read of an \<^verbatim>\<open>OpenBabel::OBAtom\<close>.  The class is OpenBabel's; of
  its accessors the element typer needs the atomic number.
\<close>

record OBAtom =
  GetAtomicNum :: cunsigned

text \<open>
  \<^verbatim>\<open>class ElementIndexTyper\<close> with its member \<^verbatim>\<open>unsigned last_elem\<close> and its
  constructor \<^verbatim>\<open>ElementIndexTyper(unsigned maxe = 84): last_elem(maxe) {}\<close>.
\<close>

record ElementIndexTyper =
  last_elem :: cunsigned

definition ElementIndexTyper_ctor :: "cunsigned \<Rightarrow> ElementIndexTyper" where
  "ElementIndexTyper_ctor maxe = \<lparr> last_elem = maxe \<rparr>"

definition ElementIndexTyper_default :: ElementIndexTyper where
  "ElementIndexTyper_default = ElementIndexTyper_ctor 84"

text \<open>
  Modelled from the spec: the body of \<^verbatim>\<open>ElementIndexTyper::num_types\<close> is missing (the
  header only declares the function).  The spec: ``\<open>num_types()\<close> = cutoff value.''
\<close>

definition ElementIndexTyper_num_types :: "ElementIndexTyper \<Rightarrow> cunsigned" where
  "ElementIndexTyper_num_types typer = last_elem typer"

text \<open>
  Modelled from the spec: the body of \<^verbatim>\<open>ElementIndexTyper::get_type\<close> is missing (the
  header only declares the function).  The spec: ``category id := atomic number if it is
  below a configured cutoff (default 84), else category 0.  Radius is looked up from a
  fixed per-element radius table; category 0's radius is a fallback constant.''  The
  header's comment on the class agrees: ``The type id is the atomic number.  Any element
  with atomic number greater than or equal to the specified max is assigned type zero.''
  The radius table and the fallback constant are not in the header; they are arguments.
\<close>

definition ElementIndexTyper_get_type ::
  "(cunsigned \<Rightarrow> 'f) \<Rightarrow> 'f \<Rightarrow> ElementIndexTyper \<Rightarrow> OBAtom \<Rightarrow> cint \<times> 'f" where
  "ElementIndexTyper_get_type radius_table fallback_radius typer a =
     (let elem = GetAtomicNum a
      in if elem < last_elem typer then (elem, radius_table elem)
         else (0, fallback_radius))"

section \<open>The subset mapper\<close>

text \<open>
  \<^verbatim>\<open>class SubsetAtomMapper\<close> with its members
  \<^verbatim>\<open>
    std::unordered_map<int, int> old2new;
    int default_type = -1; // if not in map
    unsigned num_new_types = 0;
  \<close>
  and, before a constructor body runs, the state the member initialisers give.
\<close>

record SubsetAtomMapper =
  old2new :: "cint \<rightharpoonup> cint"
  default_type :: cint
  num_new_types :: cunsigned

definition SubsetAtomMapper_members :: SubsetAtomMapper where
  "SubsetAtomMapper_members =
     \<lparr> old2new = Map.empty, default_type = - 1, num_new_types = 0 \<rparr>"

text \<open>\<^verbatim>\<open>virtual unsigned num_types() const { return num_new_types; }\<close>\<close>

definition SubsetAtomMapper_num_types :: "SubsetAtomMapper \<Rightarrow> cunsigned" where
  "SubsetAtomMapper_num_types mapper = num_new_types mapper"

text \<open>
  The bodies of the two constructors of \<^verbatim>\<open>SubsetAtomMapper\<close> and of
  \<^verbatim>\<open>SubsetAtomMapper::get_type\<close> are missing: the header only declares them.  They are
  modelled from the spec, over the members above.  The header's comment on the first
  constructor agrees with the spec: ``Indices of map are new types, values are the old
  types, if include_catchall is true, the last type will be the type returned for anything
  not in map (otherwise -1 is returned)''.
\<close>

text \<open>
  Modelled from the spec: the loop of the flat constructor, missing from the header.  The
  spec: ``given an ordered list of original ids to keep, each becomes its own new category
  (new id = position in the list)''.  \<open>i\<close> is the position of the head of the list.
\<close>

fun assign_positions :: "cint list \<Rightarrow> nat \<Rightarrow> (cint \<rightharpoonup> cint) \<Rightarrow> (cint \<rightharpoonup> cint)" where
  "assign_positions [] i m = m"
| "assign_positions (old # rest) i m = assign_positions rest (Suc i) (m(old \<mapsto> of_nat i))"

text \<open>
  Modelled from the spec: the loop of the grouped constructor, missing from the header.
  The spec: ``given an ordered list of groups (each group an unordered list of original
  ids), every id inside group i maps to new category i (many-to-one) [...] if the same
  original id appears in two groups, the later group's assignment wins''.
\<close>

fun assign_groups :: "cint list list \<Rightarrow> nat \<Rightarrow> (cint \<rightharpoonup> cint) \<Rightarrow> (cint \<rightharpoonup> cint)" where
  "assign_groups [] i m = m"
| "assign_groups (g # rest) i m =
     assign_groups rest (Suc i) (fold (\<lambda>old m'. m'(old \<mapsto> of_nat i)) g m)"

text \<open>
  Modelled from the spec: the end of both constructors, missing from the header.  The
  spec: ``if a catch-all flag is set, one extra new category is appended and every
  original id not in the list maps to it; otherwise unlisted ids map to the unmapped
  sentinel'', and for the grouped constructor ``catch-all behavior is identical to mode
  (a)''.  \<open>n\<close> is the number of listed ids, or of groups.
\<close>

definition with_catchall :: "nat \<Rightarrow> bool \<Rightarrow> SubsetAtomMapper \<Rightarrow> SubsetAtomMapper" where
  "with_catchall n include_catchall mapper =
     (if include_catchall
      then mapper\<lparr> default_type := of_nat n, num_new_types := of_nat n + 1 \<rparr>
      else mapper\<lparr> num_new_types := of_nat n \<rparr>)"

text \<open>
  Modelled from the spec: the constructor
  \<^verbatim>\<open>SubsetAtomMapper(const std::vector<int>& map, bool include_catchall)\<close>, whose body
  is missing from the header (spec: ``(a) Flat subset'').
\<close>

definition SubsetAtomMapper_flat :: "cint list \<Rightarrow> bool \<Rightarrow> SubsetAtomMapper" where
  "SubsetAtomMapper_flat kept include_catchall =
     with_catchall (length kept) include_catchall
       (SubsetAtomMapper_members\<lparr> old2new := assign_positions kept 0 Map.empty \<rparr>)"

text \<open>
  Modelled from the spec: the constructor
  \<^verbatim>\<open>SubsetAtomMapper(const std::vector< std::vector<int> >& map, bool include_catchall)\<close>,
  whose body is missing from the header (spec: ``(b) Grouped/surjective subset'').
\<close>

definition SubsetAtomMapper_grouped :: "cint list list \<Rightarrow> bool \<Rightarrow> SubsetAtomMapper" where
  "SubsetAtomMapper_grouped grps include_catchall =
     with_catchall (length grps) include_catchall
       (SubsetAtomMapper_members\<lparr> old2new := assign_groups grps 0 Map.empty \<rparr>)"

text \<open>
  Modelled from the spec: the body of \<^verbatim>\<open>SubsetAtomMapper::get_type\<close>, missing from the
  header.  A listed id maps to the new id the constructor assigned; the spec on any other
  id: ``every original id not in the list maps to [the catch-all category]; otherwise
  unlisted ids map to the unmapped sentinel'', which is the member \<open>default_type\<close>.
\<close>

definition SubsetAtomMapper_get_type :: "SubsetAtomMapper \<Rightarrow> cunsigned \<Rightarrow> cint" where
  "SubsetAtomMapper_get_type mapper origt =
     (case old2new mapper origt of
        Some newt \<Rightarrow> newt
      | None \<Rightarrow> default_type mapper)"

text \<open>
  The constructors as called with one argument.  Both declarations give the flag a default
  in the header:
  \<^verbatim>\<open>SubsetAtomMapper(const std::vector<int>& map, bool include_catchall=true)\<close> and
  \<^verbatim>\<open>SubsetAtomMapper(const std::vector< std::vector<int> >& map, bool include_catchall=true)\<close>.
\<close>

definition include_catchall_default :: bool where
  "include_catchall_default = True"

definition SubsetAtomMapper_flat_1 :: "cint list \<Rightarrow> SubsetAtomMapper" where
  "SubsetAtomMapper_flat_1 kept = SubsetAtomMapper_flat kept include_catchall_default"

definition SubsetAtomMapper_grouped_1 :: "cint list list \<Rightarrow> SubsetAtomMapper" where
  "SubsetAtomMapper_grouped_1 grps = SubsetAtomMapper_grouped grps include_catchall_default"

section \<open>Objects for the examples\<close>

text \<open>
  A typer over atoms that are plain numbers: atom \<open>n\<close> has type \<open>n\<close> and radius \<open>10 * n\<close>.
  A mapper that keeps type 0, sends types 1 and 2 to the new type 1 and has no new type
  for anything else.
\<close>

definition example_typer :: "(nat, nat, unit) AtomIndexTyper" where
  "example_typer =
     \<lparr> num_types = 4,
       get_type = (\<lambda>n. Inr (of_nat n, 10 * n)),
       get_type_names = [''t0'', ''t1'', ''t2'', ''t3''] \<rparr>"

definition example_mapper :: "unit AtomIndexTypeMapper" where
  "example_mapper =
     \<lparr> mapper_num_types = 2,
       mapper_get_type = (\<lambda>origt. Inr (if origt = 0 then 0 else if origt \<le> 2 then 1 else - 1)),
       mapper_get_type_names = [''t0'', ''t1_t2''] \<rparr>"

text \<open>
  A table with one entry for each atom type, in the order of the enumeration, and a gnina
  typer that uses it: the table has \<^verbatim>\<open>NumTypes\<close> entries, as \<^verbatim>\<open>default_data\<close> is
  declared.
\<close>

definition example_info :: "gnina_type \<Rightarrow> nat info" where
  "example_info t =
     \<lparr> sm = t, smina_name = ''Atom'', adname = ''A'', anum = 0,
       ad_radius = 2, ad_depth = 0, ad_solvation = 0, ad_volume = 0,
       covalent_radius = 1, xs_radius = 2,
       xs_hydrophobe = False, xs_donor = False, xs_acceptor = False,
       ad_heteroatom = False \<rparr>"

definition example_gnina_typer :: "nat GninaIndexTyper" where
  "example_gnina_typer = GninaIndexTyper_ctor False (map example_info atom_types)"

section \<open>Properties of the composition\<close>

text \<open>
  \<open>get_type\<close> of the composition catches nothing: an exception of the wrapped typer, or of
  the wrapped mapper on the typer's category, is the outcome of the call.
\<close>

theorem MappedAtomIndexTyper_exceptions:
  "(get_type T a = Inl e \<longrightarrow> get_type (MappedAtomIndexTyper M T) a = Inl e)
   \<and> (get_type T a = Inr (c, r) \<longrightarrow> mapper_get_type M c = Inl e
        \<longrightarrow> get_type (MappedAtomIndexTyper M T) a = Inl e)"
  by (simp add: MappedAtomIndexTyper_def MappedAtomIndexTyper_get_type_def)

theorem MappedAtomIndexTyper_exceptions_witness:
  "get_type (example_typer\<lparr> get_type := \<lambda>n. Inl () \<rparr>) 1 = Inl ()
   \<and> get_type (MappedAtomIndexTyper example_mapper
         (example_typer\<lparr> get_type := \<lambda>n. Inl () \<rparr>)) 1 = Inl ()
   \<and> get_type example_typer 1 = Inr (1, 10)
   \<and> mapper_get_type (example_mapper\<lparr> mapper_get_type := \<lambda>origt. Inl () \<rparr>) 1 = Inl ()
   \<and> get_type (MappedAtomIndexTyper
         (example_mapper\<lparr> mapper_get_type := \<lambda>origt. Inl () \<rparr>) example_typer) 1 = Inl ()"
  using MappedAtomIndexTyper_exceptions
      [of "example_typer\<lparr> get_type := \<lambda>n. Inl () \<rparr>" 1 "()" example_mapper 1 10]
    MappedAtomIndexTyper_exceptions
      [of example_typer 1 "()" "example_mapper\<lparr> mapper_get_type := \<lambda>origt. Inl () \<rparr>" 1 10]
  by (simp add: example_typer_def)

text \<open>
  A mapper that inherits \<open>num_types\<close> and \<open>get_type\<close> from the base class changes no
  result of the typer it wraps, and the composition reports 0 types.
\<close>

theorem MappedAtomIndexTyper_inherited_mapper:
  "get_type (MappedAtomIndexTyper (inherited_mapper names) T) a = get_type T a
   \<and> num_types (MappedAtomIndexTyper (inherited_mapper names) T) = 0"
  by (simp add: MappedAtomIndexTyper_def MappedAtomIndexTyper_get_type_def
      MappedAtomIndexTyper_num_types_def inherited_mapper_def
      AtomIndexTypeMapper_get_type_def AtomIndexTypeMapper_num_types_def
      split: sum.split)

text \<open>
  Claim C1 (composition law).  For every mapper \<open>M\<close>, index typer \<open>T\<close> and atom \<open>a\<close>:
  when \<open>T.get_type(a)\<close> returns \<open>(c, r)\<close> and \<open>M.get_type(c)\<close> returns \<open>m\<close>, then
  \<open>MappedAtomIndexTyper(M,T).get_type(a)\<close> returns \<open>(m, r)\<close>: the category goes through
  the mapper and the radius is unchanged.  \<open>num_types()\<close> and \<open>get_type_names()\<close> of the
  composition are those of the mapper.
\<close>

theorem MappedAtomIndexTyper_composition:
  "num_types (MappedAtomIndexTyper M T) = mapper_num_types M
   \<and> get_type_names (MappedAtomIndexTyper M T) = mapper_get_type_names M
   \<and> (get_type T a = Inr (c, r) \<longrightarrow> mapper_get_type M c = Inr m
        \<longrightarrow> get_type (MappedAtomIndexTyper M T) a = Inr (m, r))"
  by (simp add: MappedAtomIndexTyper_def MappedAtomIndexTyper_num_types_def
      MappedAtomIndexTyper_get_type_def MappedAtomIndexTyper_get_type_names_def)

theorem MappedAtomIndexTyper_composition_witness:
  "get_type example_typer 2 = Inr (2, 20)
   \<and> mapper_get_type example_mapper 2 = Inr 1
   \<and> get_type (MappedAtomIndexTyper example_mapper example_typer) 2 = Inr (1, 20)
   \<and> num_types (MappedAtomIndexTyper example_mapper example_typer) = 2
   \<and> get_type_names (MappedAtomIndexTyper example_mapper example_typer) = [''t0'', ''t1_t2'']"
  using MappedAtomIndexTyper_composition
    [of example_mapper example_typer 2 2 20 1]
  by (simp add: example_typer_def example_mapper_def)

text \<open>
  Claim C9 (the unmapped sentinel goes through).  When the wrapped typer returns \<open>(c, r)\<close>
  for an atom and the wrapped mapper returns -1 for \<open>c\<close>, \<open>get_type\<close> of the composition
  returns, with no failure, a pair whose radius is \<open>r\<close> and whose category, read as an
  \<^verbatim>\<open>int\<close>, is -1: the caller receives a negative category id.
\<close>

theorem MappedAtomIndexTyper_passes_sentinel:
  assumes "get_type T a = Inr (c, r)" and "mapper_get_type M c = Inr (- 1)"
  shows "\<exists>t. get_type (MappedAtomIndexTyper M T) a = Inr (t, r) \<and> sint t = - 1"
proof -
  have "get_type (MappedAtomIndexTyper M T) a = Inr (- 1, r)"
    using assms by (simp add: MappedAtomIndexTyper_def MappedAtomIndexTyper_get_type_def)
  moreover have "sint (- 1 :: cint) = - 1"
    by simp
  ultimately show ?thesis
    by blast
qed

theorem MappedAtomIndexTyper_passes_sentinel_witness:
  "get_type example_typer 3 = Inr (3, 30)
   \<and> mapper_get_type example_mapper 3 = Inr (- 1)
   \<and> (\<exists>t. get_type (MappedAtomIndexTyper example_mapper example_typer) 3 = Inr (t, 30)
          \<and> sint t = - 1)"
proof -
  have t: "get_type example_typer 3 = Inr (3, 30)"
    by (simp add: example_typer_def)
  have m: "mapper_get_type example_mapper 3 = Inr (- 1)"
    by (simp add: example_mapper_def)
  from MappedAtomIndexTyper_passes_sentinel [OF t m] t m show ?thesis
    by blast
qed

section \<open>The enumerations and the unchecked lookups\<close>

lemma of_nat_int_range:
  "p < 2 ^ 31 \<Longrightarrow> sint (of_nat p :: 32 word) = int p"
  by (simp add: signed_of_nat signed_take_bit_int_eq_self)

lemma gnina_type_cases: "t = NumTypes \<or> t \<in> set atom_types"
  by (cases t) (simp_all add: atom_types_def)

lemma distinct_atom_types: "distinct atom_types"
  by (simp add: atom_types_def)

lemma length_atom_types: "length atom_types = 28"
  by (simp add: atom_types_def)

lemma NumTypes_not_atom_type: "NumTypes \<notin> set atom_types"
  by (simp add: atom_types_def)

lemma enum_value_atom_types: "map enum_value atom_types = [0..<28]"
  by (simp add: atom_types_def upt_rec)

lemma enum_value_less: "t \<noteq> NumTypes \<Longrightarrow> enum_value t < 28"
  by (cases t) simp_all

lemma atom_types_set: "{t. t \<noteq> NumTypes} = set atom_types"
  using gnina_type_cases NumTypes_not_atom_type by auto

lemma get_info_in_range:
  "n < length (data typer) \<Longrightarrow> n < 2 ^ 31 \<Longrightarrow>
     GninaIndexTyper_get_info typer (of_nat n) = Entry (data typer ! n)"
  by (simp add: GninaIndexTyper_get_info_def of_nat_int_range)

lemma length_example_table: "length (data example_gnina_typer) = 28"
  by (simp add: example_gnina_typer_def GninaIndexTyper_ctor_def length_atom_types)

text \<open>
  The enumeration of atom types.  \<^verbatim>\<open>NumTypes\<close> has the value 28 and closes the
  enumeration; before it stand exactly 28 atom types, \<^verbatim>\<open>Hydrogen\<close> to \<^verbatim>\<open>Boron\<close>, with
  the values 0 to 27 in the order of the header.
\<close>

theorem gnina_type_enumeration:
  "enum_value NumTypes = 28
   \<and> length atom_types = 28
   \<and> map enum_value atom_types = [0..<28]
   \<and> set atom_types = {t. t \<noteq> NumTypes}
   \<and> card {t. t \<noteq> NumTypes} = 28"
proof -
  have "card (set atom_types) = length atom_types"
    using distinct_atom_types by (rule distinct_card)
  then show ?thesis
    by (simp add: atom_types_set length_atom_types enum_value_atom_types)
qed

text \<open>
  The value of every atom type is below \<^verbatim>\<open>NumTypes\<close>, and \<open>get_info\<close> at that value
  returns the entry of that index when the table has \<^verbatim>\<open>NumTypes\<close> entries, as
  \<^verbatim>\<open>default_data\<close> is declared.
\<close>

theorem get_info_atom_type:
  "t \<noteq> NumTypes \<longrightarrow>
     enum_value t < enum_value NumTypes
     \<and> (length (data typer) = enum_value NumTypes \<longrightarrow>
          GninaIndexTyper_get_info typer (of_nat (enum_value t))
            = Entry (data typer ! enum_value t))"
proof (intro impI conjI)
  assume t: "t \<noteq> NumTypes"
  then show "enum_value t < enum_value NumTypes"
    using enum_value_less [of t] by simp
  assume "length (data typer) = enum_value NumTypes"
  with t have "enum_value t < length (data typer)" and "enum_value t < 2 ^ 31"
    using enum_value_less [of t] by simp_all
  then show "GninaIndexTyper_get_info typer (of_nat (enum_value t))
      = Entry (data typer ! enum_value t)"
    by (rule get_info_in_range)
qed

theorem get_info_atom_type_witness:
  "Boron \<noteq> NumTypes
   \<and> length (data example_gnina_typer) = enum_value NumTypes
   \<and> enum_value Boron = 27
   \<and> GninaIndexTyper_get_info example_gnina_typer 27 = Entry (example_info Boron)"
  using get_info_atom_type [of Boron example_gnina_typer]
  by (simp add: example_gnina_typer_def GninaIndexTyper_ctor_def atom_types_def)

text \<open>
  The positions of the type vector.  \<^verbatim>\<open>NumTypes\<close> of \<^verbatim>\<open>vtype\<close> has the value 25 and
  closes the enumeration; before it stand exactly 25 positions with the values 0 to 24.
  The first 17, \<^verbatim>\<open>Hydrogen\<close> to \<^verbatim>\<open>GenericAtom\<close>, are the elements; 17 to 19 are the
  AutoDock depth, solvation and volume; 20 to 23 are the four flags; 24 is the partial
  charge.
\<close>

theorem vtype_enumeration:
  "vtype_value V_NumTypes = 25
   \<and> length vtype_positions = 25
   \<and> map vtype_value vtype_positions = [0..<25]
   \<and> set vtype_positions = {v. v \<noteq> V_NumTypes}
   \<and> take 17 vtype_positions =
        [V_Hydrogen, V_Carbon, V_Nitrogen, V_Oxygen, V_Sulfur, V_Phosphorus, V_Fluorine,
         V_Chlorine, V_Bromine, V_Iodine, V_Magnesium, V_Manganese, V_Zinc, V_Calcium,
         V_Iron, V_Boron, V_GenericAtom]
   \<and> map vtype_value [V_AD_depth, V_AD_solvation, V_AD_volume] = [17, 18, 19]
   \<and> map vtype_value [V_XS_hydrophobe, V_XS_donor, V_XS_acceptor, V_AD_heteroatom]
        = [20, 21, 22, 23]
   \<and> vtype_value V_OB_partialcharge = 24"
proof -
  have "v = V_NumTypes \<or> v \<in> set vtype_positions" for v
    by (cases v) (simp_all add: vtype_positions_def)
  moreover have "V_NumTypes \<notin> set vtype_positions"
    by (simp add: vtype_positions_def)
  ultimately have "set vtype_positions = {v. v \<noteq> V_NumTypes}"
    by auto
  moreover have "map vtype_value vtype_positions = [0..<25]"
    by (simp add: vtype_positions_def upt_rec)
  moreover have "take 17 vtype_positions =
        [V_Hydrogen, V_Carbon, V_Nitrogen, V_Oxygen, V_Sulfur, V_Phosphorus, V_Fluorine,
         V_Chlorine, V_Bromine, V_Iodine, V_Magnesium, V_Manganese, V_Zinc, V_Calcium,
         V_Iron, V_Boron, V_GenericAtom]"
    by (simp add: vtype_positions_def)
  moreover have "length vtype_positions = 25"
    by (simp add: vtype_positions_def)
  ultimately show ?thesis
    by simp
qed

text \<open>
  Claim C8, as the header has it.  The table of the example typer has \<^verbatim>\<open>NumTypes\<close>
  entries, so the ids of its domain are 0 to 27.  \<open>get_info\<close> at the id 28 and at the id
  -1 raises nothing: it reads outside the table.
\<close>

theorem lookups_unchecked_counterexample:
  "length (data example_gnina_typer) = enum_value NumTypes
   \<and> GninaIndexTyper_get_info example_gnina_typer 28 = OutOfBoundsRead
   \<and> GninaIndexTyper_get_info example_gnina_typer (- 1) = OutOfBoundsRead"
  by (simp add: GninaIndexTyper_get_info_def length_example_table)

text \<open>
  Claim C8, amended, for the two lookups whose bodies the header gives.
  \<open>GninaIndexTyper::get_info(t)\<close> checks no range and raises nothing: it returns an entry
  exactly when \<open>t\<close> is at least 0 and below the size of the table, and then the entry
  at index \<open>t\<close>; for every other \<open>t\<close>, so for a table of \<^verbatim>\<open>NumTypes\<close> entries for every
  negative \<open>t\<close> and every \<open>t\<close> from 28 on, it reads outside the table.
  \<open>AtomIndexTypeMapper::get_type\<close>, the lookup of the base mapper, whose \<open>num_types()\<close>
  is 0, returns every id unchanged, converted to \<^verbatim>\<open>int\<close>, and never fails.
\<close>

theorem lookups_unchecked:
  "((\<exists>x. GninaIndexTyper_get_info typer t = Entry x)
      \<longleftrightarrow> 0 \<le> sint t \<and> sint t < int (length (data typer)))
   \<and> (0 \<le> sint t \<and> sint t < int (length (data typer)) \<longrightarrow>
        GninaIndexTyper_get_info typer t = Entry (data typer ! nat (sint t)))
   \<and> (sint t < 0 \<or> int (length (data typer)) \<le> sint t \<longrightarrow>
        GninaIndexTyper_get_info typer t = OutOfBoundsRead)
   \<and> (length (data typer) = enum_value NumTypes \<longrightarrow> sint t < 0 \<or> 28 \<le> sint t \<longrightarrow>
        GninaIndexTyper_get_info typer t = OutOfBoundsRead)
   \<and> AtomIndexTypeMapper_num_types = 0
   \<and> AtomIndexTypeMapper_get_type origt = origt
   \<and> mapper_get_type (inherited_mapper names :: 'e AtomIndexTypeMapper) origt = Inr origt"
proof -
  have in_range: "GninaIndexTyper_get_info typer t = Entry (data typer ! nat (sint t))"
    if "0 \<le> sint t" and "sint t < int (length (data typer))"
    using that by (simp add: GninaIndexTyper_get_info_def)
  have outside: "GninaIndexTyper_get_info typer t = OutOfBoundsRead"
    if "sint t < 0 \<or> int (length (data typer)) \<le> sint t"
    using that by (auto simp add: GninaIndexTyper_get_info_def)
  have "(\<exists>x. GninaIndexTyper_get_info typer t = Entry x)
      \<longleftrightarrow> 0 \<le> sint t \<and> sint t < int (length (data typer))"
  proof (cases "0 \<le> sint t \<and> sint t < int (length (data typer))")
    case True
    then show ?thesis using in_range by simp
  next
    case False
    then have "GninaIndexTyper_get_info typer t = OutOfBoundsRead"
      by (intro outside) auto
    with False show ?thesis by simp
  qed
  moreover have "GninaIndexTyper_get_info typer t = OutOfBoundsRead"
    if "length (data typer) = enum_value NumTypes" and "sint t < 0 \<or> 28 \<le> sint t"
    using that by (intro outside) auto
  moreover have "mapper_get_type (inherited_mapper names :: 'e AtomIndexTypeMapper) origt
      = Inr origt"
    by (simp add: inherited_mapper_def AtomIndexTypeMapper_get_type_def)
  ultimately show ?thesis
    using in_range outside
    by (simp add: AtomIndexTypeMapper_num_types_def AtomIndexTypeMapper_get_type_def)
qed

theorem lookups_unchecked_witness:
  "GninaIndexTyper_get_info example_gnina_typer 6 = Entry (example_info Nitrogen)
   \<and> GninaIndexTyper_get_info example_gnina_typer 28 = OutOfBoundsRead
   \<and> GninaIndexTyper_get_info example_gnina_typer (- 1) = OutOfBoundsRead
   \<and> mapper_get_type (inherited_mapper [] :: unit AtomIndexTypeMapper) 7 = Inr 7"
proof -
  have at6: "data example_gnina_typer ! 6 = example_info Nitrogen"
    by (simp add: example_gnina_typer_def GninaIndexTyper_ctor_def atom_types_def)
  have "sint (6 :: cint) = 6" and "sint (28 :: cint) = 28" and "sint (- 1 :: cint) = - 1"
    by simp_all
  then show ?thesis
    using lookups_unchecked [where 'e = unit, of example_gnina_typer 6 7 "[]"]
      lookups_unchecked [where 'e = unit, of example_gnina_typer 28 7 "[]"]
      lookups_unchecked [where 'e = unit, of example_gnina_typer "- 1" 7 "[]"]
    by (simp add: length_example_table at6)
qed

section \<open>The subset mapper and the element typer\<close>

lemma of_nat_not_minus_one:
  "p < 2 ^ 31 \<Longrightarrow> (of_nat p :: 32 word) \<noteq> - 1"
proof
  assume p: "p < 2 ^ 31" and e: "(of_nat p :: 32 word) = - 1"
  have "sint (of_nat p :: 32 word) = int p" using p by (rule of_nat_int_range)
  with e show False by simp
qed

lemma assign_positions_unlisted:
  "old \<notin> set kept \<Longrightarrow> assign_positions kept i m old = m old"
  by (induction kept arbitrary: i m) auto

lemma assign_positions_listed:
  "old \<in> set kept \<Longrightarrow>
     \<exists>p < length kept. kept ! p = old \<and> assign_positions kept i m old = Some (of_nat (i + p))"
proof (induction kept arbitrary: i m)
  case Nil
  then show ?case by simp
next
  case (Cons x rest)
  show ?case
  proof (cases "old \<in> set rest")
    case True
    from Cons.IH [OF True, of "Suc i" "m(x \<mapsto> of_nat i)"]
    obtain p where "p < length rest" "rest ! p = old"
      "assign_positions rest (Suc i) (m(x \<mapsto> of_nat i)) old = Some (of_nat (Suc i + p))"
      by blast
    then have "Suc p < length (x # rest) \<and> (x # rest) ! Suc p = old
       \<and> assign_positions (x # rest) i m old = Some (of_nat (i + Suc p))"
      by simp
    then show ?thesis by blast
  next
    case False
    with Cons.prems have "x = old" by simp
    with False have "assign_positions (x # rest) i m old = Some (of_nat (i + 0))"
      by (simp add: assign_positions_unlisted)
    with \<open>x = old\<close> show ?thesis by fastforce
  qed
qed

lemma fold_assign:
  "fold (\<lambda>old m'. m'(old \<mapsto> v)) g m k = (if k \<in> set g then Some v else m k)"
  by (induction g arbitrary: m) auto

lemma assign_groups_value:
  "assign_groups grps i m k = Some v \<Longrightarrow>
     m k = Some v \<or> (\<exists>p < length grps. v = of_nat (i + p))"
proof (induction grps arbitrary: i m)
  case Nil
  then show ?case by simp
next
  case (Cons g rest)
  let ?m = "fold (\<lambda>old m'. m'(old \<mapsto> of_nat i)) g m"
  from Cons.prems have "assign_groups rest (Suc i) ?m k = Some v"
    by simp
  from Cons.IH [OF this]
  consider "?m k = Some v" | p where "p < length rest" "v = of_nat (Suc i + p)"
    by blast
  then show ?case
  proof cases
    case 1
    then have "m k = Some v \<or> v = of_nat (i + 0)"
      by (simp add: fold_assign split: if_splits)
    then show ?thesis by auto
  next
    case 2
    then have "Suc p < length (g # rest) \<and> v = of_nat (i + Suc p)"
      by simp
    then show ?thesis by blast
  qed
qed

lemma flat_lookup:
  "old2new (SubsetAtomMapper_flat kept b) = assign_positions kept 0 Map.empty"
  by (simp add: SubsetAtomMapper_flat_def with_catchall_def)

lemma grouped_lookup:
  "old2new (SubsetAtomMapper_grouped grps b) = assign_groups grps 0 Map.empty"
  by (simp add: SubsetAtomMapper_grouped_def with_catchall_def)

lemma flat_default_type:
  "default_type (SubsetAtomMapper_flat kept b) = (if b then of_nat (length kept) else - 1)"
  by (simp add: SubsetAtomMapper_flat_def with_catchall_def SubsetAtomMapper_members_def)

lemma grouped_default_type:
  "default_type (SubsetAtomMapper_grouped grps b) = (if b then of_nat (length grps) else - 1)"
  by (simp add: SubsetAtomMapper_grouped_def with_catchall_def SubsetAtomMapper_members_def)

lemma flat_get_type_listed:
  assumes "origt \<in> set kept"
  shows "\<exists>p < length kept. kept ! p = origt
     \<and> SubsetAtomMapper_get_type (SubsetAtomMapper_flat kept b) origt = of_nat p"
proof -
  from assign_positions_listed [OF assms, of 0 Map.empty]
  obtain p where "p < length kept" "kept ! p = origt"
    "assign_positions kept 0 Map.empty origt = Some (of_nat p)"
    by auto
  then show ?thesis
    by (auto simp add: SubsetAtomMapper_get_type_def flat_lookup)
qed

lemma flat_get_type_unlisted:
  "origt \<notin> set kept \<Longrightarrow>
     SubsetAtomMapper_get_type (SubsetAtomMapper_flat kept b) origt
       = (if b then of_nat (length kept) else - 1)"
  by (simp add: SubsetAtomMapper_get_type_def flat_lookup flat_default_type
      assign_positions_unlisted)

lemma flat_num_types:
  "SubsetAtomMapper_num_types (SubsetAtomMapper_flat kept b)
     = (if b then of_nat (length kept) + 1 else of_nat (length kept))"
  by (simp add: SubsetAtomMapper_num_types_def SubsetAtomMapper_flat_def with_catchall_def)

lemma grouped_num_types:
  "SubsetAtomMapper_num_types (SubsetAtomMapper_grouped grps b)
     = (if b then of_nat (length grps) + 1 else of_nat (length grps))"
  by (simp add: SubsetAtomMapper_num_types_def SubsetAtomMapper_grouped_def with_catchall_def)

text \<open>
  Claim C6 (flat subset mapper).  \<open>get_type\<close> maps every listed id to a position at which
  the list holds it, which is its one position when the list has no id twice.  With the
  catch-all flag, \<open>num_types()\<close> is the length of the list plus one and every unlisted id
  maps to the appended index, the length of the list; so with the subset [2,5] every id
  other than 2 and 5 maps to 2 and \<open>num_types()\<close> is 3.  Without the flag every unlisted
  id maps to -1.
\<close>

theorem SubsetAtomMapper_flat_mapping:
  "(origt \<in> set kept \<longrightarrow>
      (\<exists>p < length kept. kept ! p = origt
         \<and> SubsetAtomMapper_get_type (SubsetAtomMapper_flat kept b) origt = of_nat p))
   \<and> (distinct kept \<longrightarrow> i < length kept \<longrightarrow>
        SubsetAtomMapper_get_type (SubsetAtomMapper_flat kept b) (kept ! i) = of_nat i)
   \<and> SubsetAtomMapper_num_types (SubsetAtomMapper_flat kept True) = of_nat (length kept) + 1
   \<and> (origt \<notin> set kept \<longrightarrow>
        SubsetAtomMapper_get_type (SubsetAtomMapper_flat kept True) origt = of_nat (length kept))
   \<and> (origt \<notin> set kept \<longrightarrow>
        SubsetAtomMapper_get_type (SubsetAtomMapper_flat kept False) origt = - 1)
   \<and> (origt \<noteq> 2 \<longrightarrow> origt \<noteq> 5 \<longrightarrow>
        SubsetAtomMapper_get_type (SubsetAtomMapper_flat [2, 5] True) origt = 2)
   \<and> SubsetAtomMapper_num_types (SubsetAtomMapper_flat [2, 5] True) = 3"
proof -
  have "SubsetAtomMapper_get_type (SubsetAtomMapper_flat kept b) (kept ! i) = of_nat i"
    if d: "distinct kept" and i: "i < length kept"
  proof -
    from i have "kept ! i \<in> set kept" by simp
    from flat_get_type_listed [OF this, of b]
    obtain p where p: "p < length kept" "kept ! p = kept ! i"
      "SubsetAtomMapper_get_type (SubsetAtomMapper_flat kept b) (kept ! i) = of_nat p"
      by blast
    from d p(1) i p(2) have "p = i"
      by (simp add: nth_eq_iff_index_eq)
    with p(3) show ?thesis by simp
  qed
  then show ?thesis
    using flat_get_type_listed [of origt kept b]
    by (simp add: flat_get_type_unlisted flat_num_types)
qed

theorem SubsetAtomMapper_flat_mapping_witness:
  "SubsetAtomMapper_num_types (SubsetAtomMapper_flat [2, 5] True) = 3
   \<and> SubsetAtomMapper_get_type (SubsetAtomMapper_flat [2, 5] True) 2 = 0
   \<and> SubsetAtomMapper_get_type (SubsetAtomMapper_flat [2, 5] True) 5 = 1
   \<and> SubsetAtomMapper_get_type (SubsetAtomMapper_flat [2, 5] True) 7 = 2
   \<and> SubsetAtomMapper_get_type (SubsetAtomMapper_flat [2, 5] False) 7 = - 1"
  using SubsetAtomMapper_flat_mapping [of 7 "[2, 5]" True 0]
    SubsetAtomMapper_flat_mapping [of 7 "[2, 5]" True 1]
  by simp


lemma flat_never_sentinel:
  assumes "length kept < 2 ^ 31"
  shows "SubsetAtomMapper_get_type (SubsetAtomMapper_flat kept True) origt \<noteq> - 1"
proof (cases "origt \<in> set kept")
  case True
  from flat_get_type_listed [OF True, of True]
  obtain p where "p < length kept"
    "SubsetAtomMapper_get_type (SubsetAtomMapper_flat kept True) origt = of_nat p"
    by blast
  with assms show ?thesis
    by (simp add: of_nat_not_minus_one)
next
  case False
  with assms show ?thesis
    by (simp add: flat_get_type_unlisted of_nat_not_minus_one)
qed

lemma grouped_never_sentinel:
  assumes "length grps < 2 ^ 31"
  shows "SubsetAtomMapper_get_type (SubsetAtomMapper_grouped grps True) origt \<noteq> - 1"
proof (cases "assign_groups grps 0 Map.empty origt")
  case None
  with assms show ?thesis
    by (simp add: SubsetAtomMapper_get_type_def grouped_lookup grouped_default_type
        of_nat_not_minus_one)
next
  case (Some v)
  from assign_groups_value [OF Some]
  obtain p where "p < length grps" "v = of_nat p"
    by auto
  with assms Some show ?thesis
    by (simp add: SubsetAtomMapper_get_type_def grouped_lookup of_nat_not_minus_one)
qed

text \<open>
  Claim C10 (the catch-all is the default).  Both constructors, called without the flag,
  are the constructors with \<open>include_catchall = true\<close>.  A mapper so constructed has the
  catch-all category appended (\<open>num_types()\<close> is the number of listed ids, or of groups,
  plus one, and an unlisted id maps to the appended index) and never returns -1; a mapper
  that returns -1 was constructed with \<open>include_catchall = false\<close>.  The list is taken to
  be shorter than \<open>2 ^ 31\<close>, so that every position is an \<^verbatim>\<open>int\<close>.
\<close>

theorem SubsetAtomMapper_catchall_by_default:
  "SubsetAtomMapper_flat_1 kept = SubsetAtomMapper_flat kept True
   \<and> SubsetAtomMapper_grouped_1 grps = SubsetAtomMapper_grouped grps True
   \<and> SubsetAtomMapper_num_types (SubsetAtomMapper_flat_1 kept) = of_nat (length kept) + 1
   \<and> SubsetAtomMapper_num_types (SubsetAtomMapper_grouped_1 grps) = of_nat (length grps) + 1
   \<and> (origt \<notin> set kept \<longrightarrow>
        SubsetAtomMapper_get_type (SubsetAtomMapper_flat_1 kept) origt = of_nat (length kept))
   \<and> (length kept < 2 ^ 31 \<longrightarrow>
        SubsetAtomMapper_get_type (SubsetAtomMapper_flat_1 kept) origt \<noteq> - 1)
   \<and> (length grps < 2 ^ 31 \<longrightarrow>
        SubsetAtomMapper_get_type (SubsetAtomMapper_grouped_1 grps) origt \<noteq> - 1)
   \<and> (length kept < 2 ^ 31 \<longrightarrow>
        SubsetAtomMapper_get_type (SubsetAtomMapper_flat kept b) origt = - 1 \<longrightarrow> b = False)
   \<and> (length grps < 2 ^ 31 \<longrightarrow>
        SubsetAtomMapper_get_type (SubsetAtomMapper_grouped grps b) origt = - 1 \<longrightarrow> b = False)"
proof -
  have flat_1: "SubsetAtomMapper_flat_1 kept = SubsetAtomMapper_flat kept True"
    by (simp add: SubsetAtomMapper_flat_1_def include_catchall_default_def)
  have grouped_1: "SubsetAtomMapper_grouped_1 grps = SubsetAtomMapper_grouped grps True"
    by (simp add: SubsetAtomMapper_grouped_1_def include_catchall_default_def)
  have flat_False: "b = False"
    if "length kept < 2 ^ 31"
      and "SubsetAtomMapper_get_type (SubsetAtomMapper_flat kept b) origt = - 1"
    using that flat_never_sentinel [of kept origt] by (cases b) simp_all
  have grouped_False: "b = False"
    if "length grps < 2 ^ 31"
      and "SubsetAtomMapper_get_type (SubsetAtomMapper_grouped grps b) origt = - 1"
    using that grouped_never_sentinel [of grps origt] by (cases b) simp_all
  show ?thesis
  proof (intro conjI impI)
    show "SubsetAtomMapper_flat_1 kept = SubsetAtomMapper_flat kept True"
      by (rule flat_1)
    show "SubsetAtomMapper_grouped_1 grps = SubsetAtomMapper_grouped grps True"
      by (rule grouped_1)
    show "SubsetAtomMapper_num_types (SubsetAtomMapper_flat_1 kept) = of_nat (length kept) + 1"
      by (simp add: flat_1 flat_num_types)
    show "SubsetAtomMapper_num_types (SubsetAtomMapper_grouped_1 grps) = of_nat (length grps) + 1"
      by (simp add: grouped_1 grouped_num_types)
    show "SubsetAtomMapper_get_type (SubsetAtomMapper_flat_1 kept) origt = of_nat (length kept)"
      if "origt \<notin> set kept"
      using that by (simp add: flat_1 flat_get_type_unlisted)
    show "SubsetAtomMapper_get_type (SubsetAtomMapper_flat_1 kept) origt \<noteq> - 1"
      if "length kept < 2 ^ 31"
      using that by (simp add: flat_1 flat_never_sentinel)
    show "SubsetAtomMapper_get_type (SubsetAtomMapper_grouped_1 grps) origt \<noteq> - 1"
      if "length grps < 2 ^ 31"
      using that by (simp add: grouped_1 grouped_never_sentinel)
    show "b = False"
      if "length kept < 2 ^ 31"
        and "SubsetAtomMapper_get_type (SubsetAtomMapper_flat kept b) origt = - 1"
      using that by (rule flat_False)
    show "b = False"
      if "length grps < 2 ^ 31"
        and "SubsetAtomMapper_get_type (SubsetAtomMapper_grouped grps b) origt = - 1"
      using that by (rule grouped_False)
  qed
qed

theorem SubsetAtomMapper_catchall_by_default_witness:
  "SubsetAtomMapper_num_types (SubsetAtomMapper_flat_1 [2, 5]) = 3
   \<and> SubsetAtomMapper_get_type (SubsetAtomMapper_flat_1 [2, 5]) 7 = 2
   \<and> SubsetAtomMapper_get_type (SubsetAtomMapper_flat_1 [2, 5]) 7 \<noteq> - 1
   \<and> SubsetAtomMapper_num_types (SubsetAtomMapper_grouped_1 [[0, 1], [2]]) = 3
   \<and> SubsetAtomMapper_get_type (SubsetAtomMapper_grouped_1 [[0, 1], [2]]) 7 \<noteq> - 1
   \<and> SubsetAtomMapper_get_type (SubsetAtomMapper_flat [2, 5] False) 7 = - 1
   \<and> SubsetAtomMapper_get_type (SubsetAtomMapper_grouped [[0, 1], [2]] False) 7 = - 1"
proof -
  have "SubsetAtomMapper_get_type (SubsetAtomMapper_flat [2, 5] False) 7 = - 1"
    by (simp add: SubsetAtomMapper_get_type_def flat_lookup flat_default_type)
  moreover have "SubsetAtomMapper_get_type (SubsetAtomMapper_grouped [[0, 1], [2]] False) 7 = - 1"
    by (simp add: SubsetAtomMapper_get_type_def grouped_lookup grouped_default_type)
  ultimately show ?thesis
    using SubsetAtomMapper_catchall_by_default
      [of "[2, 5]" "[[0, 1], [2]]" 7 False, THEN conjunct2, THEN conjunct2]
    by simp
qed

text \<open>
  Claim C7 (atomic-number classifier).  The category id is the atomic number of the atom
  when that is below the cutoff, and 0 when it is the cutoff or above; \<open>num_types()\<close> is
  the cutoff.  The cutoff of a typer constructed without argument is 84: atomic number 83
  gives category 83, atomic number 84 or above gives category 0.
\<close>

theorem ElementIndexTyper_cutoff:
  "(GetAtomicNum a < last_elem typer \<longrightarrow>
      fst (ElementIndexTyper_get_type radius_table fallback_radius typer a) = GetAtomicNum a)
   \<and> (last_elem typer \<le> GetAtomicNum a \<longrightarrow>
        fst (ElementIndexTyper_get_type radius_table fallback_radius typer a) = 0)
   \<and> ElementIndexTyper_num_types typer = last_elem typer
   \<and> ElementIndexTyper_num_types (ElementIndexTyper_ctor maxe) = maxe
   \<and> ElementIndexTyper_num_types ElementIndexTyper_default = 84
   \<and> (GetAtomicNum a = 83 \<longrightarrow>
        fst (ElementIndexTyper_get_type radius_table fallback_radius ElementIndexTyper_default a)
          = 83)
   \<and> (84 \<le> GetAtomicNum a \<longrightarrow>
        fst (ElementIndexTyper_get_type radius_table fallback_radius ElementIndexTyper_default a)
          = 0)"
  by (auto simp add: ElementIndexTyper_get_type_def ElementIndexTyper_num_types_def
      ElementIndexTyper_ctor_def ElementIndexTyper_default_def Let_def)

theorem ElementIndexTyper_cutoff_witness:
  "fst (ElementIndexTyper_get_type unat 0 ElementIndexTyper_default \<lparr> GetAtomicNum = 83 \<rparr>) = 83
   \<and> fst (ElementIndexTyper_get_type unat 0 ElementIndexTyper_default \<lparr> GetAtomicNum = 84 \<rparr>) = 0
   \<and> fst (ElementIndexTyper_get_type unat 0 ElementIndexTyper_default \<lparr> GetAtomicNum = 92 \<rparr>) = 0
   \<and> fst (ElementIndexTyper_get_type unat 0 (ElementIndexTyper_ctor 10) \<lparr> GetAtomicNum = 6 \<rparr>) = 6
   \<and> ElementIndexTyper_num_types (ElementIndexTyper_ctor 10) = 10"
  using ElementIndexTyper_cutoff [of "\<lparr> GetAtomicNum = 83 \<rparr>" ElementIndexTyper_default unat 0 10]
    ElementIndexTyper_cutoff [of "\<lparr> GetAtomicNum = 84 \<rparr>" ElementIndexTyper_default unat 0 10]
    ElementIndexTyper_cutoff [of "\<lparr> GetAtomicNum = 92 \<rparr>" ElementIndexTyper_default unat 0 10]
    ElementIndexTyper_cutoff [of "\<lparr> GetAtomicNum = 6 \<rparr>" "ElementIndexTyper_ctor 10" unat 0 10]
  by (simp add: ElementIndexTyper_ctor_def)

end
